theory Spec2Isabelle
  imports Main "HOL-Library.Word"
begin

unbundle bit_operations_syntax

section \<open>Values\<close>

text \<open>
  A byte of a \<open>bytes\<close> object is an 8-bit word. A Python \<open>float\<close> is an IEEE-754
  binary64 value; it is represented by its 64-bit pattern (sign, 11 exponent bits,
  52 fraction bits), so \<open>0.0\<close> is the word \<open>0\<close>. Python's \<open>int\<close> is unbounded: \<open>int\<close>.
\<close>

type_synonym byte = "8 word"
type_synonym pyfloat = "64 word"

definition float_zero :: pyfloat where
  "float_zero = 0"

text \<open>The exceptions that can travel through the code of the package.\<close>

datatype pyexc = AttributeError | TypeError | OverflowError | StructError | OSError

text \<open>
  The value of an instance attribute, for the attribute types the two message classes
  declare: \<open>int\<close> and \<open>List[float]\<close>.
\<close>

datatype pyval = PyInt int | PyList "pyfloat list"

text \<open>
  An instance as Python sees it: its attribute dictionary. Reading an attribute that is
  not there raises \<open>AttributeError\<close>.
\<close>

type_synonym pyobj = "(string \<times> pyval) list"

definition getattr :: "pyobj \<Rightarrow> string \<Rightarrow> pyexc + pyval" where
  "getattr obj name = (case map_of obj name of None \<Rightarrow> Inl AttributeError | Some v \<Rightarrow> Inr v)"

section \<open>src/pyCRUMBS/CRUMBSMessage.py\<close>

definition CRUMBS_DATA_LENGTH :: nat where
  "CRUMBS_DATA_LENGTH = 7"

text \<open>The constant \<open>CRUMBS_MESSAGE_SIZE\<close> of CRUMBSMessage.py (CRUMBS.py has its own).\<close>

definition CRUMBSMessage_CRUMBS_MESSAGE_SIZE :: nat where
  "CRUMBSMessage_CRUMBS_MESSAGE_SIZE = 31"

record CRUMBSMessage =
  typeID :: int
  commandType :: int
  data :: "pyfloat list"
  crc8 :: int

text \<open>
  \<open>__post_init__\<close>: the data list is padded with \<open>0.0\<close> or cut to
  \<open>CRUMBS_DATA_LENGTH\<close> values, then \<open>self.crc8 &= 0xFF\<close>.
\<close>

definition post_init :: "CRUMBSMessage \<Rightarrow> CRUMBSMessage" where
  "post_init self =
     (let self1 =
        (if length (data self) \<noteq> CRUMBS_DATA_LENGTH then
           (let values = data self;
                values1 =
                  (if length values < CRUMBS_DATA_LENGTH
                   then values @ replicate (CRUMBS_DATA_LENGTH - length values) float_zero
                   else take CRUMBS_DATA_LENGTH values)
            in self\<lparr>data := values1\<rparr>)
         else self)
      in self1\<lparr>crc8 := crc8 self1 AND 0xFF\<rparr>)"

text \<open>The generated \<open>__init__\<close>: the four fields are stored, then \<open>__post_init__\<close> runs.\<close>

definition CRUMBSMessage_init :: "int \<Rightarrow> int \<Rightarrow> pyfloat list \<Rightarrow> int \<Rightarrow> CRUMBSMessage" where
  "CRUMBSMessage_init t c d k =
     post_init \<lparr>typeID = t, commandType = c, data = d, crc8 = k\<rparr>"

text \<open>
  A call of the class with keyword arguments. A keyword that is not a field of the
  dataclass makes the call raise \<open>TypeError\<close> (unexpected keyword argument); a field
  that is not given takes its default (\<open>0\<close>, \<open>0\<close>, seven \<open>0.0\<close>, \<open>0\<close>).
\<close>

datatype kwarg =
    typeID_kw int
  | commandType_kw int
  | data_kw "pyfloat list"
  | crc8_kw int
  | other_kw string int

fun bind_kw :: "kwarg \<Rightarrow> CRUMBSMessage \<Rightarrow> pyexc + CRUMBSMessage" where
  "bind_kw (typeID_kw v) m = Inr (m\<lparr>typeID := v\<rparr>)"
| "bind_kw (commandType_kw v) m = Inr (m\<lparr>commandType := v\<rparr>)"
| "bind_kw (data_kw v) m = Inr (m\<lparr>data := v\<rparr>)"
| "bind_kw (crc8_kw v) m = Inr (m\<lparr>crc8 := v\<rparr>)"
| "bind_kw (other_kw name v) m = Inl TypeError"

fun bind_kws :: "kwarg list \<Rightarrow> CRUMBSMessage \<Rightarrow> pyexc + CRUMBSMessage" where
  "bind_kws [] m = Inr m"
| "bind_kws (k # ks) m = (case bind_kw k m of Inl e \<Rightarrow> Inl e | Inr m1 \<Rightarrow> bind_kws ks m1)"

definition CRUMBSMessage_call :: "kwarg list \<Rightarrow> pyexc + CRUMBSMessage" where
  "CRUMBSMessage_call kws =
     (case bind_kws kws
             \<lparr>typeID = 0, commandType = 0,
              data = replicate CRUMBS_DATA_LENGTH float_zero, crc8 = 0\<rparr> of
        Inl e \<Rightarrow> Inl e
      | Inr m \<Rightarrow> Inr (post_init m))"

text \<open>The attribute dictionary of an instance of this class.\<close>

definition vars :: "CRUMBSMessage \<Rightarrow> pyobj" where
  "vars m =
     [(''typeID'', PyInt (typeID m)), (''commandType'', PyInt (commandType m)),
      (''data'', PyList (data m)), (''crc8'', PyInt (crc8 m))]"

section \<open>The struct module, for the format \<open>"<BB6fB"\<close>\<close>

text \<open>
  \<open>struct.pack\<close> writes an \<open>f\<close> item through the C conversion \<open>(float)x\<close> of the double
  \<open>x\<close>: round to nearest, ties to even. \<open>rne_shift sig k\<close> is \<open>sig / 2^k\<close> rounded so.
\<close>

definition rne_shift :: "nat \<Rightarrow> nat \<Rightarrow> nat" where
  "rne_shift sig k =
     (let q = sig div 2 ^ k; r = sig mod 2 ^ k
      in if 2 ^ k < 2 * r \<or> (2 * r = 2 ^ k \<and> odd q) then q + 1 else q)"

text \<open>
  The binary32 pattern of \<open>(float)x\<close>, or \<open>None\<close> where \<open>struct.pack\<close> raises
  \<open>OverflowError\<close> (float too large to pack with f format): the double is finite and
  its conversion is infinite. Infinities stay infinities, a NaN stays a (quiet) NaN with
  the leading bits of its payload, and a double below the binary32 range becomes a
  subnormal or a zero.
\<close>

definition float_of_double :: "pyfloat \<Rightarrow> 32 word option" where
  "float_of_double x =
     (let sign = (if bit x 63 then (0x80000000 :: 32 word) else 0);
          e = unat (take_bit 11 (drop_bit 52 x));
          m = unat (take_bit 52 x)
      in if e = 2047 then
           (if m = 0 then Some (sign OR 0x7F800000)
            else Some (sign OR 0x7FC00000 OR of_nat (m div 2 ^ 29)))
         else if e = 0 then Some sign
         else if 897 \<le> e then
           (let bits = (e - 896) * 2 ^ 23 + (rne_shift (2 ^ 52 + m) 29 - 2 ^ 23)
            in if 0x7F800000 \<le> bits then None else Some (sign OR of_nat bits))
         else Some (sign OR of_nat (rne_shift (2 ^ 52 + m) (926 - e))))"

text \<open>
  \<open>struct.unpack\<close> reads an \<open>f\<close> item as a C float and widens it to a double, which is
  exact. \<open>msb n\<close> is the position of the leading one of \<open>n\<close>.
\<close>

fun msb :: "nat \<Rightarrow> nat" where
  "msb n = (if n < 2 then 0 else Suc (msb (n div 2)))"

definition double_of_float :: "32 word \<Rightarrow> pyfloat" where
  "double_of_float w =
     (let sign = (if bit w 31 then (0x8000000000000000 :: 64 word) else 0);
          e = unat (take_bit 8 (drop_bit 23 w));
          m = unat (take_bit 23 w)
      in if e = 255 then
           (if m = 0 then sign OR 0x7FF0000000000000
            else sign OR 0x7FF8000000000000 OR of_nat (m * 2 ^ 29))
         else if e = 0 then
           (if m = 0 then sign
            else sign OR of_nat ((msb m + 874) * 2 ^ 52 + (m - 2 ^ msb m) * 2 ^ (52 - msb m)))
         else sign OR of_nat ((e + 896) * 2 ^ 52 + m * 2 ^ 29))"

text \<open>Little-endian bytes of a 32-bit word, and back.\<close>

definition le_bytes32 :: "32 word \<Rightarrow> byte list" where
  "le_bytes32 w = [ucast w, ucast (drop_bit 8 w), ucast (drop_bit 16 w), ucast (drop_bit 24 w)]"

definition le_word32 :: "byte list \<Rightarrow> 32 word" where
  "le_word32 bs =
     ucast (bs ! 0) OR push_bit 8 (ucast (bs ! 1)) OR push_bit 16 (ucast (bs ! 2))
       OR push_bit 24 (ucast (bs ! 3))"

text \<open>
  Format \<open>B\<close>: the argument must be an integer (else \<open>struct.error\<close>) in 0..255 (else
  \<open>struct.error\<close>).
\<close>

fun pack_B :: "pyval \<Rightarrow> pyexc + byte list" where
  "pack_B (PyInt i) = (if 0 \<le> i \<and> i \<le> 255 then Inr [word_of_int i] else Inl StructError)"
| "pack_B (PyList xs) = Inl StructError"

definition pack_f :: "pyfloat \<Rightarrow> pyexc + byte list" where
  "pack_f x = (case float_of_double x of None \<Rightarrow> Inl OverflowError | Some w \<Rightarrow> Inr (le_bytes32 w))"

fun pack_fs :: "pyfloat list \<Rightarrow> pyexc + byte list" where
  "pack_fs [] = Inr []"
| "pack_fs (x # xs) =
     (case pack_f x of
        Inl e \<Rightarrow> Inl e
      | Inr b \<Rightarrow> (case pack_fs xs of Inl e \<Rightarrow> Inl e | Inr bs \<Rightarrow> Inr (b @ bs)))"

text \<open>
  \<open>struct.pack("<BB6fB", a, b, *fs, c)\<close>: the format wants 9 items, so a list \<open>fs\<close> of
  any length but 6 raises \<open>struct.error\<close> before anything is packed; then the items are
  packed from left to right and the first one that fails raises.
\<close>

definition struct_pack_BB6fB :: "pyval \<Rightarrow> pyval \<Rightarrow> pyfloat list \<Rightarrow> pyval \<Rightarrow> pyexc + byte list" where
  "struct_pack_BB6fB a b fs c =
     (if length fs \<noteq> 6 then Inl StructError
      else case pack_B a of Inl e \<Rightarrow> Inl e | Inr b0 \<Rightarrow>
           (case pack_B b of Inl e \<Rightarrow> Inl e | Inr b1 \<Rightarrow>
           (case pack_fs fs of Inl e \<Rightarrow> Inl e | Inr bf \<Rightarrow>
           (case pack_B c of Inl e \<Rightarrow> Inl e | Inr b8 \<Rightarrow> Inr (b0 @ b1 @ bf @ b8)))))"

text \<open>
  \<open>struct.unpack("<BB6fB", buf)\<close>: \<open>struct.error\<close> unless \<open>buf\<close> has exactly 27 bytes;
  the result is the 9-tuple, given here as items 0, 1, 2..7 and 8.
\<close>

definition struct_unpack_BB6fB :: "byte list \<Rightarrow> pyexc + (int \<times> int \<times> pyfloat list \<times> int)" where
  "struct_unpack_BB6fB buf =
     (if length buf \<noteq> 27 then Inl StructError
      else Inr (uint (buf ! 0), uint (buf ! 1),
                map (\<lambda>i. double_of_float (le_word32 (take 4 (drop (2 + 4 * i) buf)))) [0..<6],
                uint (buf ! 26)))"

section \<open>src/pyCRUMBS/CRUMBS.py\<close>

text \<open>The constant \<open>CRUMBS_MESSAGE_SIZE\<close> of CRUMBS.py, the one its methods use.\<close>

definition CRUMBS_MESSAGE_SIZE :: nat where
  "CRUMBS_MESSAGE_SIZE = 27"

text \<open>
  What the methods report through \<open>logger.error\<close>, one constructor for each call in the
  source. A method that fails returns \<open>bytes()\<close>, \<open>None\<close> or \<open>False\<close>; the kind of
  failure is told by the logged message only. (The \<open>debug\<close> and \<open>info\<close> messages are
  not recorded.)
\<close>

datatype log_event =
    Encoding_error
  | Buffer_too_small nat
  | Decoding_error
  | Size_mismatch nat nat
  | Bus_not_open
  | Failed_to_send
  | Failed_to_request

text \<open>
  \<open>encode_message\<close>. The arguments of \<open>struct.pack\<close> are evaluated from left to
  right: \<open>message.typeID\<close>, \<open>message.commandType\<close>, \<open>*message.data\<close> (which raises
  \<open>TypeError\<close> for an integer), \<open>message.errorFlags\<close>. Only \<open>struct.error\<close> is caught:
  it is logged and \<open>bytes()\<close> is returned; any other exception leaves the method.
  The result is the returned bytes with what was logged.
\<close>

definition encode_message :: "pyobj \<Rightarrow> pyexc + (byte list \<times> log_event list)" where
  "encode_message message =
     (case getattr message ''typeID'' of Inl e \<Rightarrow> Inl e | Inr t \<Rightarrow>
     (case getattr message ''commandType'' of Inl e \<Rightarrow> Inl e | Inr c \<Rightarrow>
     (case getattr message ''data'' of Inl e \<Rightarrow> Inl e
      | Inr (PyInt i) \<Rightarrow> Inl TypeError
      | Inr (PyList fs) \<Rightarrow>
     (case getattr message ''errorFlags'' of Inl e \<Rightarrow> Inl e | Inr f \<Rightarrow>
     (case struct_pack_BB6fB t c fs f of
        Inr encoded \<Rightarrow> Inr (encoded, [])
      | Inl e \<Rightarrow> (if e = StructError then Inr ([], [Encoding_error]) else Inl e))))))"

text \<open>
  \<open>decode_message\<close>. A buffer shorter than \<open>CRUMBS_MESSAGE_SIZE\<close> is logged and gives
  \<open>None\<close>. Otherwise the first \<open>CRUMBS_MESSAGE_SIZE\<close> bytes are unpacked and the class
  of CRUMBSMessage.py is called with the keywords \<open>typeID\<close>, \<open>commandType\<close>, \<open>data\<close>
  and \<open>errorFlags\<close>. Only \<open>struct.error\<close> is caught.
\<close>

definition decode_message :: "byte list \<Rightarrow> pyexc + (CRUMBSMessage option \<times> log_event list)" where
  "decode_message buffer =
     (if length buffer < CRUMBS_MESSAGE_SIZE
      then Inr (None, [Buffer_too_small (length buffer)])
      else case struct_unpack_BB6fB (take CRUMBS_MESSAGE_SIZE buffer) of
             Inl e \<Rightarrow> (if e = StructError then Inr (None, [Decoding_error]) else Inl e)
           | Inr (u0, u1, fs, u8) \<Rightarrow>
               (case CRUMBSMessage_call
                       [typeID_kw u0, commandType_kw u1, data_kw fs, other_kw ''errorFlags'' u8] of
                  Inl e \<Rightarrow> (if e = StructError then Inr (None, [Decoding_error]) else Inl e)
                | Inr msg \<Rightarrow> Inr (Some msg, [])))"

subsection \<open>The bus\<close>

text \<open>
  The bus driver (smbus2) is outside the package. What the package asks of it is
  recorded, call by call: opening a bus, one \<open>i2c_rdwr\<close> transaction with its message,
  closing the handle. An \<open>i2c_msg\<close> is a write of bytes to an address or a read of a
  number of bytes from an address. Its \<open>addr\<close> field is a 16-bit unsigned integer
  (\<open>c_uint16\<close>), which takes any Python integer and keeps its low 16 bits: \<open>-3\<close> is stored
  as 65533 and 65544 as 8, with no exception. \<open>i2c_msg.write(a, buf)\<close> and
  \<open>i2c_msg.read(a, n)\<close> are therefore \<open>i2c_write (word_of_int a) buf\<close> and
  \<open>i2c_read (word_of_int a) n\<close>.
\<close>

datatype i2c_msg = i2c_write "16 word" "byte list" | i2c_read "16 word" nat

datatype bus_call = SMBus_open int | i2c_rdwr i2c_msg | SMBus_close

datatype SMBus = SMBus int

text \<open>
  How a transaction ends is not decided by the package: \<open>None\<close> when \<open>i2c_rdwr\<close>
  raises, \<open>Some p\<close> when it returns, \<open>p\<close> being the address of the buffer that the
  message points to (its field \<open>buf\<close>, a \<open>POINTER(c_char)\<close>; the allocator chooses it).
  The bytes a device sends on a read land in that buffer.
\<close>

type_synonym driver = "i2c_msg \<Rightarrow> 64 word option"

text \<open>
  \<open>bytes(read.buf)\<close>: \<open>read.buf\<close> is the pointer, not the buffer, and \<open>bytes\<close> of a
  ctypes pointer is the memory of the pointer itself: the 8 bytes of the address (on a
  64-bit platform; 4 on a 32-bit one), whatever the buffer holds.
\<close>

definition pointer_bytes :: "64 word \<Rightarrow> byte list" where
  "pointer_bytes p = map (\<lambda>i. ucast (drop_bit (8 * i) p)) [0..<8]"

text \<open>
  The state: the attributes \<open>bus_number\<close> and \<open>bus\<close> of the \<open>CRUMBS\<close> instance, the
  calls made to the driver so far, and the errors logged so far.
\<close>

record CRUMBS =
  bus_number :: int
  bus :: "SMBus option"
  calls :: "bus_call list"
  errors :: "log_event list"

definition log_error :: "log_event list \<Rightarrow> CRUMBS \<Rightarrow> CRUMBS" where
  "log_error evs self = self\<lparr>errors := errors self @ evs\<rparr>"

definition call_bus :: "bus_call \<Rightarrow> CRUMBS \<Rightarrow> CRUMBS" where
  "call_bus c self = self\<lparr>calls := calls self @ [c]\<rparr>"

definition CRUMBS_init :: "int \<Rightarrow> CRUMBS" where
  "CRUMBS_init n = \<lparr>bus_number = n, bus = None, calls = [], errors = []\<rparr>"

text \<open>
  \<open>begin\<close> (a keyword here, hence \<open>begin_bus\<close>): \<open>self.bus = SMBus(self.bus_number)\<close>;
  the driver may fail to open, and the exception then leaves the method.
\<close>

definition begin_bus :: "bool \<Rightarrow> CRUMBS \<Rightarrow> pyexc + CRUMBS" where
  "begin_bus opens self =
     (let self1 = call_bus (SMBus_open (bus_number self)) self
      in if opens then Inr (self1\<lparr>bus := Some (SMBus (bus_number self))\<rparr>) else Inl OSError)"

text \<open>
  \<open>send_message\<close>. The message is encoded outside the \<open>try\<close>, so an exception of
  \<open>encode_message\<close> leaves the method. Inside the \<open>try\<close> every exception is caught.
\<close>

definition send_message :: "driver \<Rightarrow> CRUMBS \<Rightarrow> pyobj \<Rightarrow> int \<Rightarrow> pyexc + (bool \<times> CRUMBS)" where
  "send_message drv self message target_address =
     (case encode_message message of
        Inl e \<Rightarrow> Inl e
      | Inr (encoded, logged) \<Rightarrow>
          (let self1 = log_error logged self
           in if length encoded \<noteq> CRUMBS_MESSAGE_SIZE
              then Inr (False, log_error [Size_mismatch CRUMBS_MESSAGE_SIZE (length encoded)] self1)
              else (let write = i2c_write (word_of_int target_address) encoded
                    in case bus self1 of
                         Some h \<Rightarrow>
                           (let self2 = call_bus (i2c_rdwr write) self1
                            in case drv write of
                                 Some p \<Rightarrow> Inr (True, self2)
                               | None \<Rightarrow> Inr (False, log_error [Failed_to_send] self2))
                       | None \<Rightarrow> Inr (False, log_error [Bus_not_open] self1))))"

text \<open>
  \<open>request_message\<close>. Everything is inside the \<open>try\<close>, the call of \<open>decode_message\<close>
  too: whatever is raised is logged and \<open>None\<close> is returned. What is decoded is
  \<open>bytes(read.buf)\<close>.
\<close>

definition request_message :: "driver \<Rightarrow> CRUMBS \<Rightarrow> int \<Rightarrow> CRUMBSMessage option \<times> CRUMBS" where
  "request_message drv self target_address =
     (let read = i2c_read (word_of_int target_address) CRUMBS_MESSAGE_SIZE
      in case bus self of
           Some h \<Rightarrow>
             (let self1 = call_bus (i2c_rdwr read) self
              in case drv read of
                   None \<Rightarrow> (None, log_error [Failed_to_request] self1)
                 | Some p \<Rightarrow>
                     (case decode_message (pointer_bytes p) of
                        Inl e \<Rightarrow> (None, log_error [Failed_to_request] self1)
                      | Inr (r, logged) \<Rightarrow> (r, log_error logged self1)))
         | None \<Rightarrow> (None, log_error [Bus_not_open] self))"

text \<open>
  \<open>close\<close>: \<open>if self.bus: self.bus.close()\<close>. An \<open>SMBus\<close> object is always true, and
  \<open>self.bus\<close> is left as it is.
\<close>

definition close :: "CRUMBS \<Rightarrow> CRUMBS" where
  "close self = (case bus self of Some h \<Rightarrow> call_bus SMBus_close self | None \<Rightarrow> self)"

section \<open>The first copy of the package: CRUMBSMessage.py and CRUMBS.py at the top\<close>

text \<open>
  The message class of the first copy has 6 floats and \<open>errorFlags\<close>, and no
  \<open>__post_init__\<close>. Its \<open>encode_message\<close> is the same text as above, and so is its
  \<open>CRUMBS_MESSAGE_SIZE\<close>.
\<close>

record CRUMBSMessage_v0 =
  typeID_v0 :: int
  commandType_v0 :: int
  data_v0 :: "pyfloat list"
  errorFlags :: int

definition vars_v0 :: "CRUMBSMessage_v0 \<Rightarrow> pyobj" where
  "vars_v0 m =
     [(''typeID'', PyInt (typeID_v0 m)), (''commandType'', PyInt (commandType_v0 m)),
      (''data'', PyList (data_v0 m)), (''errorFlags'', PyInt (errorFlags m))]"

text \<open>
  \<open>send_message\<close> of the first copy: it returns nothing, and calls
  \<open>self.bus.i2c_rdwr\<close> without looking at \<open>self.bus\<close>; on \<open>None\<close> that raises
  \<open>AttributeError\<close> inside the \<open>try\<close>, which is caught and logged.
\<close>

definition send_message_v0 :: "driver \<Rightarrow> CRUMBS \<Rightarrow> pyobj \<Rightarrow> int \<Rightarrow> pyexc + CRUMBS" where
  "send_message_v0 drv self message target_address =
     (case encode_message message of
        Inl e \<Rightarrow> Inl e
      | Inr (encoded, logged) \<Rightarrow>
          (let self1 = log_error logged self
           in if length encoded \<noteq> CRUMBS_MESSAGE_SIZE
              then Inr (log_error [Size_mismatch CRUMBS_MESSAGE_SIZE (length encoded)] self1)
              else (let write = i2c_write (word_of_int target_address) encoded
                    in case bus self1 of
                         None \<Rightarrow> Inr (log_error [Failed_to_send] self1)
                       | Some h \<Rightarrow>
                           (let self2 = call_bus (i2c_rdwr write) self1
                            in case drv write of
                                 Some p \<Rightarrow> Inr self2
                               | None \<Rightarrow> Inr (log_error [Failed_to_send] self2)))))"

section \<open>The CRC-8 of the specification\<close>

text \<open>
  Modelled from the spec: the CRC-8 engine (the generated crc8_nibble.c and its adapter
  are not among the sources). Width 8, polynomial 0x07, initial value 0x00, no
  reflection, no final XOR, computed bit by bit.
\<close>

definition crc8_shift :: "byte \<Rightarrow> byte" where
  "crc8_shift c = (if bit c 7 then push_bit 1 c XOR 0x07 else push_bit 1 c)"

definition crc8_update :: "byte \<Rightarrow> byte \<Rightarrow> byte" where
  "crc8_update c b = (crc8_shift ^^ 8) (c XOR b)"

definition crc8_compute :: "byte list \<Rightarrow> byte" where
  "crc8_compute bs = foldl crc8_update 0 bs"

section \<open>Inputs\<close>

text \<open>Encoding, then decoding what was encoded.\<close>

definition decode_of_encode :: "pyobj \<Rightarrow> pyexc + (CRUMBSMessage option \<times> log_event list)" where
  "decode_of_encode message =
     (case encode_message message of
        Inl e \<Rightarrow> Inl e
      | Inr (frame, logged) \<Rightarrow> decode_message frame)"

text \<open>
  The message of the specification's scenario: \<open>typeID=1\<close>, \<open>commandType=2\<close>,
  \<open>data=[75.0, 1.0, 0.0, 65.0, 2.0, 7.0, 3.14]\<close>, \<open>crc8=0\<close>, the floats written as
  binary64 patterns; and a message of the first copy's class with the first six values.
\<close>

definition example_message :: CRUMBSMessage where
  "example_message =
     CRUMBSMessage_init 1 2
       [0x4052C00000000000, 0x3FF0000000000000, 0, 0x4050400000000000,
        0x4000000000000000, 0x401C000000000000, 0x40091EB851EB851F] 0"

definition example_message_v0 :: CRUMBSMessage_v0 where
  "example_message_v0 =
     \<lparr>typeID_v0 = 1, commandType_v0 = 2,
      data_v0 = [0x4052C00000000000, 0x3FF0000000000000, 0, 0x4050400000000000,
                 0x4000000000000000, 0x401C000000000000],
      errorFlags = 0\<rparr>"

text \<open>The same with \<open>data[0] = 1e39\<close>, a double beyond the binary32 range.\<close>

definition too_large_message_v0 :: CRUMBSMessage_v0 where
  "too_large_message_v0 =
     \<lparr>typeID_v0 = 1, commandType_v0 = 2,
      data_v0 = [0x48078287F49C4A1D, 0, 0, 0, 0, 0],
      errorFlags = 0\<rparr>"

text \<open>The same with \<open>typeID = 256\<close>, which format \<open>B\<close> refuses.\<close>

definition bad_typeID_message_v0 :: CRUMBSMessage_v0 where
  "bad_typeID_message_v0 =
     \<lparr>typeID_v0 = 256, commandType_v0 = 2,
      data_v0 = [0, 0, 0, 0, 0, 0],
      errorFlags = 0\<rparr>"

text \<open>
  Buffers: 31 zero bytes, whose last byte is the CRC-8 of the first 30; the same with
  the last byte changed to 1; and 27 zero bytes.
\<close>

definition intact_frame :: "byte list" where
  "intact_frame = replicate 31 0"

definition corrupted_frame :: "byte list" where
  "corrupted_frame = replicate 30 0 @ [1]"

definition short_buffer :: "byte list" where
  "short_buffer = replicate 27 0"

text \<open>
  Two drivers: one whose transactions all raise, one whose transactions all complete,
  the buffer of a message being at the address 0x7F3A5C001000. And the instance
  \<open>CRUMBS(1)\<close> after \<open>begin()\<close>.
\<close>

definition driver_raises :: driver where
  "driver_raises msg = None"

definition driver_completes :: driver where
  "driver_completes msg = Some 0x7F3A5C001000"

definition opened :: CRUMBS where
  "opened = \<lparr>bus_number = 1, bus = Some (SMBus 1), calls = [SMBus_open 1], errors = []\<rparr>"

section \<open>Message construction\<close>

lemma and_255_eq_mod: "(k::int) AND 0xFF = k mod 256"
proof -
  have "(255::int) = mask 8" by (simp add: mask_eq_exp_minus_1)
  then have "k AND 0xFF = take_bit 8 k" by (simp add: take_bit_eq_mask)
  then show ?thesis by (simp add: take_bit_eq_mod)
qed

lemma data_CRUMBSMessage_init:
  "data (CRUMBSMessage_init t c d k) = take 7 d @ replicate (7 - length d) float_zero"
  by (simp add: CRUMBSMessage_init_def post_init_def CRUMBS_DATA_LENGTH_def Let_def)

lemma crc8_CRUMBSMessage_init: "crc8 (CRUMBSMessage_init t c d k) = k AND 0xFF"
  by (simp add: CRUMBSMessage_init_def post_init_def Let_def)

text \<open>
  Claim C5. Whatever list of floats is given at construction, the data of the constructed
  message has exactly 7 values: a shorter list is kept as a prefix and followed by
  \<open>0.0\<close> up to length 7, a longer list is cut to its first 7 values, and a list of
  7 values is kept. The constructor is a total function: there is no error branch.
\<close>

theorem C5_data_normalized:
  "length (data (CRUMBSMessage_init t c d k)) = 7 \<and>
   (length d < 7 \<longrightarrow>
      data (CRUMBSMessage_init t c d k) = d @ replicate (7 - length d) float_zero \<and>
      take (length d) (data (CRUMBSMessage_init t c d k)) = d) \<and>
   (7 < length d \<longrightarrow> data (CRUMBSMessage_init t c d k) = take 7 d) \<and>
   (length d = 7 \<longrightarrow> data (CRUMBSMessage_init t c d k) = d)"
  by (simp add: data_CRUMBSMessage_init)

theorem C5_data_normalized_witness:
  "length [1, 2, 3 :: pyfloat] < 7 \<and>
   data (CRUMBSMessage_init 1 2 [1, 2, 3] 0) = [1, 2, 3, 0, 0, 0, 0] \<and>
   7 < length [1, 2, 3, 4, 5, 6, 7, 8, 9, 10 :: pyfloat] \<and>
   data (CRUMBSMessage_init 1 2 [1, 2, 3, 4, 5, 6, 7, 8, 9, 10] 0) = [1, 2, 3, 4, 5, 6, 7] \<and>
   length [1, 2, 3, 4, 5, 6, 7 :: pyfloat] = 7 \<and>
   data (CRUMBSMessage_init 1 2 [1, 2, 3, 4, 5, 6, 7] 0) = [1, 2, 3, 4, 5, 6, 7]"
  using C5_data_normalized [of 1 2 "[1, 2, 3]" 0]
    C5_data_normalized [of 1 2 "[1, 2, 3, 4, 5, 6, 7, 8, 9, 10]" 0]
    C5_data_normalized [of 1 2 "[1, 2, 3, 4, 5, 6, 7]" 0]
  by (simp add: float_zero_def numeral_eq_Suc)

text \<open>
  Claim C9. Whatever integer is given as \<open>crc8\<close> at construction, the stored value is
  the given value masked to its low 8 bits, and so lies in 0..255.
\<close>

theorem C9_crc8_masked:
  "crc8 (CRUMBSMessage_init t c d k) = k AND 0xFF \<and>
   crc8 (CRUMBSMessage_init t c d k) = k mod 256 \<and>
   0 \<le> crc8 (CRUMBSMessage_init t c d k) \<and>
   crc8 (CRUMBSMessage_init t c d k) \<le> 255"
proof -
  have m: "crc8 (CRUMBSMessage_init t c d k) = k mod 256"
    by (simp only: crc8_CRUMBSMessage_init and_255_eq_mod)
  have "0 \<le> k mod 256" and "k mod 256 < 256"
    by simp_all
  with m show ?thesis
    by (simp add: crc8_CRUMBSMessage_init)
qed


section \<open>Encoding\<close>

lemma encode_message_vars: "encode_message (vars m) = Inl AttributeError"
  by (simp add: encode_message_def getattr_def vars_def)

lemma pack_B_length: "pack_B v = Inr b \<Longrightarrow> length b = 1"
  by (cases v) (auto split: if_splits)

lemma pack_f_length: "pack_f x = Inr b \<Longrightarrow> length b = 4"
  by (auto simp: pack_f_def le_bytes32_def split: option.splits)

lemma pack_fs_length: "pack_fs xs = Inr bs \<Longrightarrow> length bs = 4 * length xs"
proof (induction xs arbitrary: bs)
  case Nil
  then show ?case by simp
next
  case (Cons x xs)
  then show ?case
    by (auto split: sum.splits dest: pack_f_length)
qed

lemma struct_pack_BB6fB_length:
  assumes "struct_pack_BB6fB a b fs c = Inr bs"
  shows "length bs = 27"
proof -
  from assms have six: "length fs = 6"
    by (auto simp: struct_pack_BB6fB_def split: if_splits)
  from assms obtain b0 b1 bf b8
    where "pack_B a = Inr b0" "pack_B b = Inr b1" "pack_fs fs = Inr bf" "pack_B c = Inr b8"
      and bs: "bs = b0 @ b1 @ bf @ b8"
    by (auto simp: struct_pack_BB6fB_def split: if_splits sum.splits)
  then have "length b0 = 1" "length b1 = 1" "length bf = 4 * length fs" "length b8 = 1"
    by (auto dest: pack_B_length pack_fs_length)
  with six bs show ?thesis by simp
qed

lemma encode_message_returns:
  assumes "encode_message message = Inr (bs, logged)"
  shows "(length bs = CRUMBS_MESSAGE_SIZE \<and> logged = []) \<or> (bs = [] \<and> logged = [Encoding_error])"
  using assms
  by (auto simp: encode_message_def CRUMBS_MESSAGE_SIZE_def
      split: sum.splits pyval.splits if_splits dest: struct_pack_BB6fB_length)

lemma pack_fs_total:
  "\<forall>x\<in>set xs. float_of_double x \<noteq> None \<Longrightarrow> \<exists>bs. pack_fs xs = Inr bs"
  by (induction xs) (auto simp: pack_f_def split: sum.splits option.splits)

lemma encode_message_v0_total:
  assumes "0 \<le> typeID_v0 m" "typeID_v0 m \<le> 255" "0 \<le> commandType_v0 m" "commandType_v0 m \<le> 255"
    "0 \<le> errorFlags m" "errorFlags m \<le> 255" "length (data_v0 m) = 6"
    "\<forall>x\<in>set (data_v0 m). float_of_double x \<noteq> None"
  shows "\<exists>bs. encode_message (vars_v0 m) = Inr (bs, []) \<and> length bs = 27"
proof -
  from assms(8) obtain bf where bf: "pack_fs (data_v0 m) = Inr bf"
    using pack_fs_total by blast
  then have "length bf = 24"
    using pack_fs_length assms(7) by fastforce
  with assms bf show ?thesis
    by (simp add: encode_message_def getattr_def vars_v0_def struct_pack_BB6fB_def)
qed

lemma encode_message_example_v0:
  "encode_message (vars_v0 example_message_v0) =
   Inr ([1, 2, 0, 0, 0x96, 0x42, 0, 0, 0x80, 0x3F, 0, 0, 0, 0, 0, 0, 0x82, 0x42,
         0, 0, 0, 0x40, 0, 0, 0xE0, 0x40, 0], [])"
  by (simp add: encode_message_def getattr_def vars_v0_def example_message_v0_def
      struct_pack_BB6fB_def pack_f_def float_of_double_def rne_shift_def le_bytes32_def Let_def)

lemma encode_message_too_large_v0:
  "encode_message (vars_v0 too_large_message_v0) = Inl OverflowError"
  by (simp add: encode_message_def getattr_def vars_v0_def too_large_message_v0_def
      struct_pack_BB6fB_def pack_f_def float_of_double_def rne_shift_def le_bytes32_def Let_def)

lemma encode_message_bad_typeID_v0:
  "encode_message (vars_v0 bad_typeID_message_v0) = Inr ([], [Encoding_error])"
  by (simp add: encode_message_def getattr_def vars_v0_def bad_typeID_message_v0_def
      struct_pack_BB6fB_def)

section \<open>Decoding\<close>

lemma struct_unpack_27:
  "length buf = 27 \<Longrightarrow> \<exists>u0 u1 fs u8. struct_unpack_BB6fB buf = Inr (u0, u1, fs, u8)"
  by (simp add: struct_unpack_BB6fB_def)

lemma CRUMBSMessage_call_errorFlags:
  "CRUMBSMessage_call [typeID_kw u0, commandType_kw u1, data_kw fs, other_kw ''errorFlags'' u8]
     = Inl TypeError"
  by (simp add: CRUMBSMessage_call_def)

lemma decode_message_long:
  assumes "CRUMBS_MESSAGE_SIZE \<le> length buffer"
  shows "decode_message buffer = Inl TypeError"
proof -
  from assms have "length (take CRUMBS_MESSAGE_SIZE buffer) = 27"
    by (simp add: CRUMBS_MESSAGE_SIZE_def)
  then obtain u0 u1 fs u8
    where u: "struct_unpack_BB6fB (take CRUMBS_MESSAGE_SIZE buffer) = Inr (u0, u1, fs, u8)"
    using struct_unpack_27 by blast
  from assms have "\<not> length buffer < CRUMBS_MESSAGE_SIZE" by simp
  then show ?thesis
    by (simp add: decode_message_def u CRUMBSMessage_call_errorFlags)
qed

lemma decode_message_short:
  "length buffer < CRUMBS_MESSAGE_SIZE \<Longrightarrow>
   decode_message buffer = Inr (None, [Buffer_too_small (length buffer)])"
  by (simp add: decode_message_def)

lemma decode_message_never_Some: "decode_message buffer \<noteq> Inr (Some m, logged)"
proof (cases "length buffer < CRUMBS_MESSAGE_SIZE")
  case True
  then show ?thesis by (simp add: decode_message_short)
next
  case False
  then show ?thesis by (simp add: decode_message_long)
qed

lemma funpow8: "(f ^^ 8) x = f (f (f (f (f (f (f (f x)))))))"
  by (simp add: numeral_eq_Suc)

lemma crc8_update_0: "crc8_update 0 0 = 0"
  by (simp add: crc8_update_def crc8_shift_def funpow8)

lemma crc8_compute_zeros: "crc8_compute (replicate n 0) = 0"
  unfolding crc8_compute_def by (induction n) (simp_all add: crc8_update_0)

lemma crc8_compute_check: "crc8_compute [0x31, 0x32, 0x33, 0x34, 0x35, 0x36, 0x37, 0x38, 0x39] = 0xF4"
  by (simp add: crc8_compute_def crc8_update_def crc8_shift_def funpow8)

text \<open>
  Claim C1 says that encoding a well-formed message succeeds with a frame of 31 bytes
  ending in a CRC-8. At the message of the specification's scenario, an instance of the
  class of CRUMBSMessage.py, \<open>encode_message\<close> raises \<open>AttributeError\<close>: it reads
  \<open>message.errorFlags\<close>, which the class does not have, and catches \<open>struct.error\<close>
  only. (For an instance of the first copy's class the frame has 27 bytes and ends in
  \<open>errorFlags\<close>: lemma \<open>encode_message_example_v0\<close>.)
\<close>

theorem C1_encode_message_raises:
  "encode_message (vars example_message) = Inl AttributeError"
  by (rule encode_message_vars)

text \<open>
  Claim C2 says that decoding the encoding of a message gives the message back. At the
  message of the specification's scenario nothing is encoded (\<open>AttributeError\<close>); and
  where a frame is produced, for an instance of the first copy's class, decoding it
  raises \<open>TypeError\<close>: the class of CRUMBSMessage.py is called with the keyword
  \<open>errorFlags\<close>, which it does not take.
\<close>

theorem C2_decode_of_encode_raises:
  "decode_of_encode (vars example_message) = Inl AttributeError \<and>
   decode_of_encode (vars_v0 example_message_v0) = Inl TypeError"
  by (simp add: decode_of_encode_def encode_message_vars encode_message_example_v0
      decode_message_long CRUMBS_MESSAGE_SIZE_def)

text \<open>
  Claim C3 says that a buffer of at least 31 bytes whose CRC-8 over bytes 0..29 differs
  from byte 30 is refused as a checksum mismatch. At 30 zero bytes followed by 1 (the
  CRC-8 of 30 zero bytes is 0) \<open>decode_message\<close> raises \<open>TypeError\<close>, and does the
  same at 31 zero bytes, where the checksum is right: no checksum is computed.
\<close>

theorem C3_checksum_not_checked:
  "length corrupted_frame = 31 \<and>
   crc8_compute (take 30 corrupted_frame) \<noteq> corrupted_frame ! 30 \<and>
   decode_message corrupted_frame = Inl TypeError \<and>
   length intact_frame = 31 \<and>
   crc8_compute (take 30 intact_frame) = intact_frame ! 30 \<and>
   decode_message intact_frame = Inl TypeError"
proof -
  have "take 30 corrupted_frame = replicate 30 0" "corrupted_frame ! 30 = 1"
    by (simp_all add: corrupted_frame_def nth_append)
  moreover have "take 30 intact_frame = replicate 30 0" "intact_frame ! 30 = 0"
    by (simp_all add: intact_frame_def)
  moreover have "decode_message corrupted_frame = Inl TypeError"
    by (rule decode_message_long) (simp add: corrupted_frame_def CRUMBS_MESSAGE_SIZE_def)
  moreover have "decode_message intact_frame = Inl TypeError"
    by (rule decode_message_long) (simp add: intact_frame_def CRUMBS_MESSAGE_SIZE_def)
  ultimately show ?thesis
    by (simp add: crc8_compute_zeros corrupted_frame_def intact_frame_def)
qed

text \<open>
  Claim C4 says that every buffer shorter than 31 bytes is refused as too short. At a
  buffer of 27 bytes \<open>decode_message\<close> passes its length test, which compares with
  the 27 of CRUMBS.py, and then raises \<open>TypeError\<close>; it does not report a buffer
  that is too small.
\<close>

theorem C4_decode_message_27_bytes:
  "length short_buffer = 27 \<and>
   length short_buffer < CRUMBSMessage_CRUMBS_MESSAGE_SIZE \<and>
   decode_message short_buffer = Inl TypeError \<and>
   decode_message short_buffer \<noteq> Inr (None, [Buffer_too_small 27])"
proof -
  have "decode_message short_buffer = Inl TypeError"
    by (rule decode_message_long) (simp add: short_buffer_def CRUMBS_MESSAGE_SIZE_def)
  then show ?thesis
    by (simp add: short_buffer_def CRUMBSMessage_CRUMBS_MESSAGE_SIZE_def)
qed



section \<open>The bus\<close>

lemma calls_log_error: "calls (log_error evs self) = calls self"
  by (simp add: log_error_def)

lemma bus_log_error: "bus (log_error evs self) = bus self"
  by (simp add: log_error_def)

lemma calls_call_bus: "calls (call_bus c self) = calls self @ [c]"
  by (simp add: call_bus_def)

lemma bus_call_bus: "bus (call_bus c self) = bus self"
  by (simp add: call_bus_def)

lemma begin_bus_opened: "begin_bus True (CRUMBS_init 1) = Inr opened"
  by (simp add: begin_bus_def CRUMBS_init_def call_bus_def opened_def)

lemma close_keeps_bus: "bus (close self) = bus self"
  by (simp add: close_def bus_call_bus split: option.splits)

lemma close_not_opened: "bus self = None \<Longrightarrow> close self = self"
  by (simp add: close_def)

lemma close_opened: "bus self = Some h \<Longrightarrow> calls (close self) = calls self @ [SMBus_close]"
  by (simp add: close_def calls_call_bus)

lemma request_message_not_opened:
  "bus self = None \<Longrightarrow> request_message drv self a = (None, log_error [Bus_not_open] self)"
  by (simp add: request_message_def)

lemma length_pointer_bytes: "length (pointer_bytes p) = 8"
  by (simp add: pointer_bytes_def)

lemma decode_message_pointer_bytes:
  "decode_message (pointer_bytes p) = Inr (None, [Buffer_too_small 8])"
  using decode_message_short [of "pointer_bytes p"]
  by (simp add: length_pointer_bytes CRUMBS_MESSAGE_SIZE_def)

lemma request_message_opened:
  "bus self = Some h \<Longrightarrow>
   request_message drv self a =
     (None,
      log_error [if drv (i2c_read (word_of_int a) CRUMBS_MESSAGE_SIZE) = None
                 then Failed_to_request else Buffer_too_small 8]
        (call_bus (i2c_rdwr (i2c_read (word_of_int a) CRUMBS_MESSAGE_SIZE)) self))"
  by (auto simp: request_message_def Let_def decode_message_pointer_bytes)

lemma request_message_calls:
  "bus self = Some h \<Longrightarrow>
   calls (snd (request_message drv self a)) =
     calls self @ [i2c_rdwr (i2c_read (word_of_int a) CRUMBS_MESSAGE_SIZE)]"
  by (simp add: request_message_opened calls_log_error calls_call_bus)

lemma request_message_None: "fst (request_message drv self a) = None"
  by (cases "bus self") (simp_all add: request_message_not_opened request_message_opened)

lemma send_message_not_opened:
  "bus self = None \<Longrightarrow> encode_message message = Inr (frame, logged) \<Longrightarrow>
   length frame = CRUMBS_MESSAGE_SIZE \<Longrightarrow>
   send_message drv self message a = Inr (False, log_error [Bus_not_open] (log_error logged self))"
  by (simp add: send_message_def Let_def bus_log_error)

lemma send_message_calls:
  "bus self = Some h \<Longrightarrow> encode_message message = Inr (frame, logged) \<Longrightarrow>
   length frame = CRUMBS_MESSAGE_SIZE \<Longrightarrow>
   \<exists>r self1. send_message drv self message a = Inr (r, self1) \<and>
     calls self1 = calls self @ [i2c_rdwr (i2c_write (word_of_int a) frame)]"
  by (auto simp: send_message_def Let_def bus_log_error calls_log_error calls_call_bus
      split: option.splits)

lemma send_message_raises:
  "encode_message message = Inl e \<Longrightarrow> send_message drv self message a = Inl e"
  by (simp add: send_message_def)

lemma send_message_size_mismatch:
  "encode_message message = Inr (encoded, logged) \<Longrightarrow> length encoded \<noteq> CRUMBS_MESSAGE_SIZE \<Longrightarrow>
   send_message drv self message a =
     Inr (False, log_error [Size_mismatch CRUMBS_MESSAGE_SIZE (length encoded)] (log_error logged self))"
  by (simp add: send_message_def Let_def)

lemma send_message_v0_raises:
  "encode_message message = Inl e \<Longrightarrow> send_message_v0 drv self message a = Inl e"
  by (simp add: send_message_v0_def)

lemma send_message_v0_size_mismatch:
  "encode_message message = Inr (encoded, logged) \<Longrightarrow> length encoded \<noteq> CRUMBS_MESSAGE_SIZE \<Longrightarrow>
   send_message_v0 drv self message a =
     Inr (log_error [Size_mismatch CRUMBS_MESSAGE_SIZE (length encoded)] (log_error logged self))"
  by (simp add: send_message_v0_def Let_def)

text \<open>
  Claim C6 says that \<open>send\<close> and \<open>request\<close> on a transport that is closed, never
  opened or closed after being open, fail as not open and reach the bus driver with no
  transaction. After \<open>begin()\<close> and \<open>close()\<close> the attribute \<open>bus\<close> is still set, so
  \<open>request_message\<close> and \<open>send_message\<close> pass their test \<open>self.bus is not None\<close>
  and call \<open>i2c_rdwr\<close> on the closed handle; with a driver that raises there, the
  failure logged is the one of a failed transaction. On an instance never opened,
  \<open>request_message\<close> does report that the bus is not open and calls nothing, while
  \<open>send_message\<close> with a message of the class of CRUMBSMessage.py raises
  \<open>AttributeError\<close> from \<open>encode_message\<close>.
\<close>

theorem C6_request_after_close:
  "begin_bus True (CRUMBS_init 1) = Inr opened \<and>
   request_message driver_raises (close opened) 8 =
     (None, \<lparr>bus_number = 1, bus = Some (SMBus 1),
             calls = [SMBus_open 1, SMBus_close, i2c_rdwr (i2c_read 8 27)],
             errors = [Failed_to_request]\<rparr>) \<and>
   request_message driver_raises (CRUMBS_init 1) 8 =
     (None, \<lparr>bus_number = 1, bus = None, calls = [], errors = [Bus_not_open]\<rparr>) \<and>
   send_message driver_raises (close opened) (vars_v0 example_message_v0) 8 =
     Inr (False, \<lparr>bus_number = 1, bus = Some (SMBus 1),
             calls = [SMBus_open 1, SMBus_close,
               i2c_rdwr (i2c_write 8
                 [1, 2, 0, 0, 0x96, 0x42, 0, 0, 0x80, 0x3F, 0, 0, 0, 0, 0, 0, 0x82, 0x42,
                  0, 0, 0, 0x40, 0, 0, 0xE0, 0x40, 0])],
             errors = [Failed_to_send]\<rparr>) \<and>
   send_message driver_raises (CRUMBS_init 1) (vars example_message) 8 = Inl AttributeError"
proof -
  have "send_message driver_raises (close opened) (vars_v0 example_message_v0) 8 =
     Inr (False, \<lparr>bus_number = 1, bus = Some (SMBus 1),
             calls = [SMBus_open 1, SMBus_close,
               i2c_rdwr (i2c_write 8
                 [1, 2, 0, 0, 0x96, 0x42, 0, 0, 0x80, 0x3F, 0, 0, 0, 0, 0, 0, 0x82, 0x42,
                  0, 0, 0, 0x40, 0, 0, 0xE0, 0x40, 0])],
             errors = [Failed_to_send]\<rparr>)"
    by (simp add: send_message_def encode_message_example_v0 close_def opened_def call_bus_def
        log_error_def driver_raises_def CRUMBS_MESSAGE_SIZE_def)
  moreover
  have "request_message driver_raises (close opened) 8 =
     (None, \<lparr>bus_number = 1, bus = Some (SMBus 1),
             calls = [SMBus_open 1, SMBus_close, i2c_rdwr (i2c_read 8 27)],
             errors = [Failed_to_request]\<rparr>)"
    by (simp add: request_message_def close_def opened_def call_bus_def log_error_def
        driver_raises_def CRUMBS_MESSAGE_SIZE_def)
  moreover have "request_message driver_raises (CRUMBS_init 1) 8 =
     (None, \<lparr>bus_number = 1, bus = None, calls = [], errors = [Bus_not_open]\<rparr>)"
    by (simp add: request_message_def CRUMBS_init_def log_error_def)
  ultimately show ?thesis
    by (simp add: begin_bus_opened send_message_raises encode_message_vars)
qed

text \<open>
  Claim C7 says that closing twice releases the bus handle at most once. \<open>close\<close>
  does not reset \<open>self.bus\<close>: after \<open>begin()\<close>, each of two calls of \<open>close()\<close>
  calls \<open>self.bus.close()\<close>.
\<close>

theorem C7_close_twice:
  "begin_bus True (CRUMBS_init 1) = Inr opened \<and>
   close opened =
     \<lparr>bus_number = 1, bus = Some (SMBus 1), calls = [SMBus_open 1, SMBus_close], errors = []\<rparr> \<and>
   close (close opened) =
     \<lparr>bus_number = 1, bus = Some (SMBus 1),
      calls = [SMBus_open 1, SMBus_close, SMBus_close], errors = []\<rparr>"
  by (simp add: begin_bus_opened close_def opened_def call_bus_def)

text \<open>
  Claim C8 says that an address outside 0x00..0x7F is refused before any bus
  transaction. On the opened instance, \<open>request_message\<close> with the address 128 calls
  \<open>i2c_rdwr\<close> with a read from the address 128; the transaction completing, what is
  decoded is the 8 bytes of the pointer, and the failure logged is a buffer that is too
  small, not an address that is refused.
\<close>

theorem C8_request_address_128:
  "(0x7F :: int) < 128 \<and>
   request_message driver_completes opened 128 =
     (None, \<lparr>bus_number = 1, bus = Some (SMBus 1),
             calls = [SMBus_open 1, i2c_rdwr (i2c_read 128 27)],
             errors = [Buffer_too_small 8]\<rparr>)"
proof -
  have "bus opened = Some (SMBus 1)"
    by (simp add: opened_def)
  then show ?thesis
    by (simp add: request_message_opened driver_completes_def CRUMBS_MESSAGE_SIZE_def
        opened_def call_bus_def log_error_def)
qed

text \<open>
  Claim C8, as the code has it, for \<open>request\<close>: the address is not checked. On an
  instance whose \<open>bus\<close> is set, \<open>request_message\<close> with any integer address, inside
  0x00..0x7F or not, makes exactly one \<open>i2c_rdwr\<close> call, a read of
  \<open>CRUMBS_MESSAGE_SIZE\<close> bytes from the address reduced to the 16 bits of the
  \<open>addr\<close> field. (What it then returns and logs is lemma \<open>request_message_opened\<close>;
  it does not depend on the address being in range.)
\<close>

theorem C8_no_address_check:
  "bus self = Some h \<longrightarrow>
     calls (snd (request_message drv self a)) =
       calls self @ [i2c_rdwr (i2c_read (word_of_int a) CRUMBS_MESSAGE_SIZE)]"
  by (simp add: request_message_calls)

theorem C8_no_address_check_witness:
  "bus opened = Some (SMBus 1) \<and>
   calls (snd (request_message driver_completes opened 128)) =
     [SMBus_open 1, i2c_rdwr (i2c_read 128 27)] \<and>
   calls (snd (request_message driver_completes opened (-3))) =
     [SMBus_open 1, i2c_rdwr (i2c_read 65533 27)] \<and>
   calls (snd (request_message driver_raises opened 65544)) =
     [SMBus_open 1, i2c_rdwr (i2c_read 8 27)] \<and>
   calls (snd (request_message driver_completes opened 8)) =
     [SMBus_open 1, i2c_rdwr (i2c_read 8 27)]"
proof -
  have b: "bus opened = Some (SMBus 1)"
    and c: "calls opened = [SMBus_open 1]"
    by (simp_all add: opened_def)
  show ?thesis
    using b c
      C8_no_address_check [of opened "SMBus 1" driver_completes 128]
      C8_no_address_check [of opened "SMBus 1" driver_completes "-3"]
      C8_no_address_check [of opened "SMBus 1" driver_raises 65544]
      C8_no_address_check [of opened "SMBus 1" driver_completes 8]
    by (simp add: CRUMBS_MESSAGE_SIZE_def)
qed

section \<open>Frames that are not whole\<close>

text \<open>
  Whenever \<open>encode_message\<close> returns, the bytes are a whole frame of
  \<open>CRUMBS_MESSAGE_SIZE\<close> bytes or empty; when their length is not
  \<open>CRUMBS_MESSAGE_SIZE\<close>, \<open>send_message\<close> of either copy logs the size mismatch and
  makes no call to the bus.
\<close>

lemma send_message_no_partial_frame:
  "(encode_message message = Inr (encoded, logged) \<longrightarrow>
      length encoded = CRUMBS_MESSAGE_SIZE \<or> encoded = []) \<and>
   (encode_message message = Inr (encoded, logged) \<and> length encoded \<noteq> CRUMBS_MESSAGE_SIZE \<longrightarrow>
      send_message_v0 drv self message a =
        Inr (log_error [Size_mismatch CRUMBS_MESSAGE_SIZE (length encoded)] (log_error logged self)) \<and>
      calls (log_error [Size_mismatch CRUMBS_MESSAGE_SIZE (length encoded)] (log_error logged self))
        = calls self \<and>
      send_message drv self message a =
        Inr (False, log_error [Size_mismatch CRUMBS_MESSAGE_SIZE (length encoded)] (log_error logged self)))"
  using encode_message_returns [of message encoded logged]
  by (auto simp: send_message_v0_size_mismatch send_message_size_mismatch calls_log_error)

lemma send_message_v0_bad_typeID:
  "send_message_v0 driver_completes opened (vars_v0 bad_typeID_message_v0) 8 =
     Inr \<lparr>bus_number = 1, bus = Some (SMBus 1), calls = [SMBus_open 1],
          errors = [Encoding_error, Size_mismatch 27 0]\<rparr>"
  using send_message_v0_size_mismatch [OF encode_message_bad_typeID_v0,
      of driver_completes opened 8]
  by (simp add: CRUMBS_MESSAGE_SIZE_def log_error_def opened_def)

text \<open>
  Claim C10 says that \<open>encode_message\<close> always returns a whole frame or the empty byte
  string, and that \<open>send_message\<close> reports a failure when it gets no whole frame. The
  handler of \<open>encode_message\<close> turns a failure of \<open>struct.pack\<close> into \<open>bytes()\<close>, as
  for \<open>typeID = 256\<close>, which is logged and sent nowhere. For a message of the first
  copy's class with \<open>data[0] = 1e39\<close>, \<open>struct.pack\<close> fails with \<open>OverflowError\<close>,
  which is not a \<open>struct.error\<close>: \<open>encode_message\<close> returns nothing, and
  \<open>send_message\<close>, which calls it outside its \<open>try\<close>, raises with it.
\<close>

theorem C10_encode_message_too_large:
  "encode_message (vars_v0 too_large_message_v0) = Inl OverflowError \<and>
   send_message_v0 driver_completes opened (vars_v0 too_large_message_v0) 8 = Inl OverflowError \<and>
   send_message driver_completes opened (vars_v0 too_large_message_v0) 8 = Inl OverflowError \<and>
   encode_message (vars_v0 bad_typeID_message_v0) = Inr ([], [Encoding_error])"
  by (simp add: encode_message_too_large_v0 send_message_v0_raises send_message_raises
      encode_message_bad_typeID_v0)

end
